theory Spec2Isabelle
  imports Complex_Main "HOL-Library.Word" "HOL-Library.Multiset"
begin

section \<open>Transport text: Base64 (util/base64.js and the browser built-ins)\<close>

text \<open>
  A \<open>Uint8Array\<close> is a list of 8-bit words. A JavaScript string is a list of
  characters; the fragments handled here are ASCII, one \<open>char\<close> per code unit.
\<close>

type_synonym byte = "8 word"

definition b64chars :: string where
  "b64chars = ''ABCDEFGHIJKLMNOPQRSTUVWXYZabcdefghijklmnopqrstuvwxyz0123456789+/''"

definition enc64 :: "nat \<Rightarrow> char" where
  "enc64 n = b64chars ! n"

text \<open>
  \<open>btoa\<close> of the binary string built from a byte array
  (\<open>binary += String.fromCharCode(bytes[i])\<close>; \<open>btoa(binary)\<close>): the standard
  alphabet of RFC 4648 with \<open>=\<close> padding, three bytes to four characters.
\<close>

fun btoa :: "byte list \<Rightarrow> string" where
  "btoa [] = []"
| "btoa [a] =
     [enc64 (unat a div 4), enc64 ((unat a mod 4) * 16), CHR ''='', CHR ''='']"
| "btoa [a, b] =
     [enc64 (unat a div 4), enc64 ((unat a mod 4) * 16 + unat b div 16),
      enc64 ((unat b mod 16) * 4), CHR ''='']"
| "btoa (a # b # c # rest) =
     [enc64 (unat a div 4), enc64 ((unat a mod 4) * 16 + unat b div 16),
      enc64 ((unat b mod 16) * 4 + unat c div 64), enc64 (unat c mod 64)] @ btoa rest"

text \<open>The same characters without the padding.\<close>

fun btoaCore :: "byte list \<Rightarrow> string" where
  "btoaCore [] = []"
| "btoaCore [a] = [enc64 (unat a div 4), enc64 ((unat a mod 4) * 16)]"
| "btoaCore [a, b] =
     [enc64 (unat a div 4), enc64 ((unat a mod 4) * 16 + unat b div 16),
      enc64 ((unat b mod 16) * 4)]"
| "btoaCore (a # b # c # rest) =
     [enc64 (unat a div 4), enc64 ((unat a mod 4) * 16 + unat b div 16),
      enc64 ((unat b mod 16) * 4 + unat c div 64), enc64 (unat c mod 64)] @ btoaCore rest"

text \<open>Position of a character in the alphabet.\<close>

fun index_of :: "'a \<Rightarrow> 'a list \<Rightarrow> nat option" where
  "index_of x [] = None"
| "index_of x (y # ys) =
     (if x = y then Some 0 else map_option Suc (index_of x ys))"

definition dec64 :: "char \<Rightarrow> nat" where
  "dec64 c = (case index_of c b64chars of Some n \<Rightarrow> n | None \<Rightarrow> 0)"

fun fromSextets :: "nat list \<Rightarrow> byte list" where
  "fromSextets (s1 # s2 # s3 # s4 # rest) =
     [of_nat (s1 * 4 + s2 div 16), of_nat ((s2 mod 16) * 16 + s3 div 4),
      of_nat ((s3 mod 4) * 64 + s4)] @ fromSextets rest"
| "fromSextets [s1, s2, s3] =
     [of_nat (s1 * 4 + s2 div 16), of_nat ((s2 mod 16) * 16 + s3 div 4)]"
| "fromSextets [s1, s2] = [of_nat (s1 * 4 + s2 div 16)]"
| "fromSextets _ = []"

definition isAsciiWhitespace :: "char \<Rightarrow> bool" where
  "isAsciiWhitespace c \<longleftrightarrow> of_char c \<in> {9, 10, 12, 13, 32 :: nat}"

definition stripPadding :: "string \<Rightarrow> string" where
  "stripPadding d =
     (if length d mod 4 = 0 \<and> d \<noteq> [] \<and> last d = CHR ''=''
      then (if butlast d \<noteq> [] \<and> last (butlast d) = CHR ''=''
            then butlast (butlast d) else butlast d)
      else d)"

text \<open>
  \<open>atob\<close>, the forgiving Base64 decoder of the platform: whitespace is removed, one
  or two trailing \<open>=\<close> are removed when the length is a multiple of four, a length
  of 1 modulo 4 or a character outside the alphabet throws (\<open>None\<close>).
\<close>

definition atob :: "string \<Rightarrow> byte list option" where
  "atob s =
     (let d = stripPadding (filter (\<lambda>c. \<not> isAsciiWhitespace c) s)
      in if length d mod 4 = 1 then None
         else if \<exists>c \<in> set d. c \<notin> set b64chars then None
         else Some (fromSextets (map dec64 d)))"

text \<open>The class \<open>\s\<close> of a JavaScript regular expression, on 8-bit characters.\<close>

definition isRegexSpace :: "char \<Rightarrow> bool" where
  "isRegexSpace c \<longleftrightarrow> of_char c \<in> {9, 10, 11, 12, 13, 32, 160 :: nat}"

definition normaliseBase64 :: "string \<Rightarrow> string" where
  "normaliseBase64 v =
     (let trimmed =
            map (\<lambda>c. if c = CHR ''_'' then CHR ''/'' else c)
              (map (\<lambda>c. if c = CHR ''-'' then CHR ''+'' else c)
                 (filter (\<lambda>c. \<not> isRegexSpace c) v));
          remainder = length trimmed mod 4
      in if remainder = 0 then trimmed
         else trimmed @ replicate (4 - remainder) CHR ''='')"

definition base64ToUint8Array :: "string \<Rightarrow> byte list option" where
  "base64ToUint8Array v = atob (normaliseBase64 v)"


section \<open>The coded-reference payload\<close>

text \<open>
  JavaScript values that may be missing are options: \<open>None\<close> is \<open>undefined\<close> or
  \<open>null\<close>. A string is falsy when it is empty, a number when it is zero.
\<close>

definition truthyStr :: "string option \<Rightarrow> bool" where
  "truthyStr v = (case v of None \<Rightarrow> False | Some s \<Rightarrow> s \<noteq> [])"

definition orStr :: "string option \<Rightarrow> string \<Rightarrow> string" where
  \<comment> \<open>\<open>v || d\<close> on an optional string\<close>
  "orStr v d = (case v of None \<Rightarrow> d | Some s \<Rightarrow> if s = [] then d else s)"

record codeRef =
  sys :: "string option"
  code :: "string option"

record patientData =
  given :: "string option"
  family :: "string option"
  rank :: "string option"
  title :: "string option"
  nationality :: "string option"
  dob :: "string option"
  gender :: "codeRef option"
  blood_group :: "codeRef option"
  bloodGroup :: "codeRef option"
  nhs_id :: "codeRef option"
  nhsId :: "codeRef option"
  service_id :: "codeRef option"
  serviceId :: "codeRef option"

datatype dose = DoseNumber real | DoseText string

record vital =
  v_code :: "codeRef option"
  v_value :: "real option"
  v_unit :: "string option"
  v_route :: "string option"
  v_time :: "string option"

record condition =
  c_code :: "codeRef option"
  c_onset :: "string option"

record event =
  e_code :: "codeRef option"
  e_time :: "string option"
  e_dose :: "dose option"
  e_unit :: "string option"
  e_route :: "string option"

record allergy =
  a_code :: codeRef
  a_category :: string
  a_criticality :: string
  a_recorded :: string
  a_reaction :: string
  a_severity :: string

text \<open>
  The entries of a stage list may be \<open>null\<close> in a payload read from JSON, and a list may
  be missing.
\<close>

record stage =
  vitals :: "vital option list option"
  conditions :: "condition option list option"
  events :: "event option list option"

datatype stageKey = poi | casevac | axp | medevac | r1 | fwdTacevac | r2 | rearTacevac | r3

record bundleMetadata =
  bm_id :: string
  meta_json :: string
  identifier_json :: string
  bm_type :: string
  bm_timestamp :: string
  composition_fullUrl :: "string option"
  composition_json :: string
  entries_json :: string

datatype tvalue = TNumber int | TString string

record payload =
  patient :: "patientData option"
  allergies :: "allergy list option"
  bundleMetadata :: "bundleMetadata option"
  stages :: "stageKey \<Rightarrow> stage option"
  t :: "tvalue option"
  original_bundle_json :: "string option"
  originalBundleJson :: "string option"

definition emptyPatient :: patientData where
  "emptyPatient = \<lparr>given = None, family = None, rank = None, title = None,
     nationality = None, dob = None, gender = None, blood_group = None, bloodGroup = None,
     nhs_id = None, nhsId = None, service_id = None, serviceId = None\<rparr>"

definition emptyPayload :: payload where
  "emptyPayload = \<lparr>patient = None, allergies = None, bundleMetadata = None,
     stages = (\<lambda>_. None), t = None, original_bundle_json = None,
     originalBundleJson = None\<rparr>"

section \<open>Codec pipeline (script.js, codecPipeline)\<close>

text \<open>
  The compression library (pako) and the compiled wire schema (protobuf.js) are external:
  they are parameters of the model. A call that throws returns \<open>None\<close>.
\<close>

record pako =
  deflate :: "byte list \<Rightarrow> byte list"
  inflate :: "byte list \<Rightarrow> byte list option"
  inflateRaw :: "byte list \<Rightarrow> byte list option"

record payloadType =
  pt_encode :: "payload \<Rightarrow> byte list option"
    \<comment> \<open>\<open>payloadType.encode(payloadType.create(p)).finish()\<close>\<close>
  pt_decode :: "byte list \<Rightarrow> payload option"
    \<comment> \<open>\<open>payloadType.decode(buffer)\<close>, the message\<close>
  pt_toObject :: "payload \<Rightarrow> payload"
    \<comment> \<open>\<open>payloadType.toObject(message, ...)\<close>\<close>

definition attemptInflations :: "pako \<Rightarrow> byte list \<Rightarrow> byte list list" where
  "attemptInflations pk bytes =
     (case inflate pk bytes of
        Some inflated \<Rightarrow> [inflated]
      | None \<Rightarrow> (case inflateRaw pk bytes of
                   Some inflatedRaw \<Rightarrow> [inflatedRaw]
                 | None \<Rightarrow> []))
     @ [bytes]"

definition convertFromProtobufNaming :: "payload \<Rightarrow> payload" where
  "convertFromProtobufNaming object =
     (case patient object of
        None \<Rightarrow> object
      | Some p0 \<Rightarrow>
          let p1 = (if bloodGroup p0 \<noteq> None \<and> blood_group p0 = None
                    then p0\<lparr>blood_group := bloodGroup p0, bloodGroup := None\<rparr> else p0);
              p2 = (if nhsId p1 \<noteq> None \<and> nhs_id p1 = None
                    then p1\<lparr>nhs_id := nhsId p1, nhsId := None\<rparr> else p1);
              p3 = (if serviceId p2 \<noteq> None \<and> service_id p2 = None
                    then p2\<lparr>service_id := serviceId p2, serviceId := None\<rparr> else p2)
          in object\<lparr>patient := Some p3\<rparr>)"

definition patientOrEmpty :: "payload \<Rightarrow> patientData" where
  \<comment> \<open>\<open>object.patient || {}\<close>\<close>
  "patientOrEmpty object = (case patient object of None \<Rightarrow> emptyPatient | Some p \<Rightarrow> p)"

definition decodeWith :: "payloadType \<Rightarrow> byte list \<Rightarrow> payload option" where
  "decodeWith pt buffer =
     (case pt_decode pt buffer of
        None \<Rightarrow> None
      | Some message \<Rightarrow>
          let object = pt_toObject pt message;
              object1 =
                (case patient message of
                   None \<Rightarrow> object
                 | Some mp \<Rightarrow>
                     let o1 = (if blood_group mp \<noteq> None
                                  \<and> blood_group (patientOrEmpty object) = None
                               then object\<lparr>patient :=
                                      Some ((patientOrEmpty object)\<lparr>blood_group := blood_group mp\<rparr>)\<rparr>
                               else object);
                         o2 = (if nhs_id mp \<noteq> None \<and> nhs_id (patientOrEmpty o1) = None
                               then o1\<lparr>patient :=
                                      Some ((patientOrEmpty o1)\<lparr>nhs_id := nhs_id mp\<rparr>)\<rparr>
                               else o1);
                         o3 = (if service_id mp \<noteq> None \<and> service_id (patientOrEmpty o2) = None
                               then o2\<lparr>patient :=
                                      Some ((patientOrEmpty o2)\<lparr>service_id := service_id mp\<rparr>)\<rparr>
                               else o2)
                     in o3);
              originalBundle =
                (if truthyStr (original_bundle_json message) then original_bundle_json message
                 else originalBundleJson message);
              object2 =
                (if truthyStr originalBundle \<and> \<not> truthyStr (original_bundle_json object1)
                    \<and> \<not> truthyStr (originalBundleJson object1)
                 then object1\<lparr>originalBundleJson := originalBundle\<rparr>
                 else object1)
          in Some (convertFromProtobufNaming object2))"

fun tryDecode :: "(byte list \<Rightarrow> 'a option) \<Rightarrow> byte list list \<Rightarrow> 'a option" where
  "tryDecode dw [] = None"
| "tryDecode dw (buffer # buffers) =
     (case dw buffer of Some r \<Rightarrow> Some r | None \<Rightarrow> tryDecode dw buffers)"

datatype error =
    InvalidBase64
  | UnableToDecode    \<comment> \<open>'Unable to decode NFC payload fragment.'\<close>
  | FailedToEncode    \<comment> \<open>'Failed to encode payload to fragment'\<close>
  | NoPatientResource \<comment> \<open>'No Patient resource found in FHIR Bundle'\<close>
  | TypeError

datatype ('c, 'l) decodeResult = Coderef 'c | Legacy 'l

text \<open>
  \<open>decodeFragment\<close>, both schemas being loaded. The legacy schema yields an object of
  another shape (\<open>D\<close>, \<open>P\<close>, \<open>V\<close>, \<open>C\<close>, \<open>E\<close>); its \<open>decodeWith\<close> is the
  parameter \<open>legacyDecodeWith\<close>. The result \<open>{data, schemaVersion}\<close> is the payload
  under the constructor of its schema.
\<close>

definition decodeFragment ::
  "pako \<Rightarrow> payloadType \<Rightarrow> (byte list \<Rightarrow> 'l option) \<Rightarrow> string
     \<Rightarrow> error + (payload, 'l) decodeResult" where
  "decodeFragment pk pt legacyDecodeWith fragment =
     (case base64ToUint8Array fragment of
        None \<Rightarrow> Inl InvalidBase64
      | Some bytes \<Rightarrow>
          let buffers = attemptInflations pk bytes in
          (case tryDecode (decodeWith pt) buffers of
             Some coderefResult \<Rightarrow> Inr (Coderef coderefResult)
           | None \<Rightarrow>
               (case tryDecode legacyDecodeWith buffers of
                  Some legacyResult \<Rightarrow> Inr (Legacy legacyResult)
                | None \<Rightarrow> Inl UnableToDecode)))"

text \<open>
  \<open>encodeToFragment\<close> on a coded-reference payload: it has no \<open>resourceType\<close>, so the
  conversion from the interchange format is not entered, and the payload is serialised,
  deflated and passed to \<open>btoa\<close>. Any exception becomes
  'Failed to encode payload to fragment'.
\<close>

definition encodeToFragment :: "pako \<Rightarrow> payloadType \<Rightarrow> payload \<Rightarrow> error + string" where
  "encodeToFragment pk pt p =
     (case pt_encode pt p of
        None \<Rightarrow> Inl FailedToEncode
      | Some buffer \<Rightarrow> Inr (btoa (deflate pk buffer)))"

subsection \<open>The negotiation order as the specification words it\<close>

text \<open>
  The specification's wording of schema negotiation, for comparison with
  \<open>decodeFragment\<close>: each candidate buffer is tried under the current schema, then under
  the legacy schema, before the next candidate.
\<close>

fun spec_bufferMajorNegotiation ::
  "(byte list \<Rightarrow> 'c option) \<Rightarrow> (byte list \<Rightarrow> 'l option) \<Rightarrow> byte list list
     \<Rightarrow> error + ('c, 'l) decodeResult" where
  "spec_bufferMajorNegotiation cur leg [] = Inl UnableToDecode"
| "spec_bufferMajorNegotiation cur leg (buffer # buffers) =
     (case cur buffer of
        Some r \<Rightarrow> Inr (Coderef r)
      | None \<Rightarrow> (case leg buffer of
                   Some l \<Rightarrow> Inr (Legacy l)
                 | None \<Rightarrow> spec_bufferMajorNegotiation cur leg buffers))"

subsection \<open>Payloads whose patient uses the snake-case names\<close>

definition snakeCasePatient :: "patientData \<Rightarrow> bool" where
  "snakeCasePatient p \<longleftrightarrow>
     \<not> (bloodGroup p \<noteq> None \<and> blood_group p = None)
     \<and> \<not> (nhsId p \<noteq> None \<and> nhs_id p = None)
     \<and> \<not> (serviceId p \<noteq> None \<and> service_id p = None)"

definition snakeCasePayload :: "payload \<Rightarrow> bool" where
  "snakeCasePayload P = (case patient P of None \<Rightarrow> True | Some p \<Rightarrow> snakeCasePatient p)"

subsection \<open>Concrete libraries and payloads for the examples\<close>

text \<open>A compression library that stores: every stream inflates to itself.\<close>

definition storedPako :: pako where
  "storedPako = \<lparr>deflate = id, inflate = Some, inflateRaw = Some\<rparr>"

text \<open>
  zlib on the empty input gives the eight bytes \<open>78 9c 03 00 00 00 00 01\<close>
  (header, one empty final block, Adler-32 of nothing).
\<close>

definition zlibOfEmpty :: "byte list" where
  "zlibOfEmpty = [0x78, 0x9c, 0x03, 0x00, 0x00, 0x00, 0x00, 0x01]"

definition zlibDeflate :: "byte list \<Rightarrow> byte list" where
  "zlibDeflate bs = (if bs = [] then zlibOfEmpty else bs)"

definition zlibInflate :: "byte list \<Rightarrow> byte list option" where
  "zlibInflate bs = (if bs = zlibOfEmpty then Some [] else None)"

definition rejectAll :: "byte list \<Rightarrow> byte list option" where
  "rejectAll bs = None"

definition zlibPako :: pako where
  "zlibPako = \<lparr>deflate = zlibDeflate, inflate = zlibInflate, inflateRaw = rejectAll\<rparr>"

text \<open>A wire schema with one message: every payload is written as the byte 1.\<close>

definition encodeAsOne :: "payload \<Rightarrow> byte list option" where
  "encodeAsOne p = Some [1]"



text \<open>The empty message of the wire format is the empty byte string.\<close>

definition encodeEmpty :: "payload \<Rightarrow> byte list option" where
  "encodeEmpty p = (if p = emptyPayload then Some [] else None)"

definition decodeEmpty :: "byte list \<Rightarrow> payload option" where
  "decodeEmpty bs = (if bs = [] then Some emptyPayload else None)"

definition emptyMessageType :: payloadType where
  "emptyMessageType = \<lparr>pt_encode = encodeEmpty, pt_decode = decodeEmpty, pt_toObject = id\<rparr>"





text \<open>
  An ambiguous tag: the bytes \<open>[2]\<close> inflate to \<open>[1]\<close>; \<open>[1]\<close> is a legacy message
  only, \<open>[2]\<close> a current-schema message only.
\<close>

definition ambiguousInflate :: "byte list \<Rightarrow> byte list option" where
  "ambiguousInflate bs = (if bs = [2] then Some [1] else None)"

definition ambiguousPako :: pako where
  "ambiguousPako = \<lparr>deflate = id, inflate = ambiguousInflate, inflateRaw = rejectAll\<rparr>"

definition decodeTwo :: "byte list \<Rightarrow> payload option" where
  "decodeTwo bs = (if bs = [2] then Some emptyPayload else None)"

definition currentOnTwo :: payloadType where
  "currentOnTwo = \<lparr>pt_encode = encodeAsOne, pt_decode = decodeTwo, pt_toObject = id\<rparr>"

definition legacyOnOne :: "byte list \<Rightarrow> string option" where
  "legacyOnOne bs = (if bs = [1] then Some ''indexed'' else None)"


section \<open>Normalising coded-reference items (script.js, payloadService)\<close>
















section \<open>Temporal grouping (createMISTChronologicalRows)\<close>























section \<open>Summary timestamp (buildSummary)\<close>





definition orEmpty :: "'a list option \<Rightarrow> 'a list" where
  "orEmpty xs = (case xs of None \<Rightarrow> [] | Some ys \<Rightarrow> ys)"








subsection \<open>Concrete items and a concrete platform for the examples\<close>
























section \<open>Interchange bundle to coded references (convertFhirBundleToCodeRef)\<close>

text \<open>
  A resource is a JavaScript object: the record below has one field for each property
  path the converter reads; \<open>a_b0_c\<close> stands for \<open>a?.b?.[0]?.c\<close>. \<open>category0\<close> is
  the first category when it is a string (allergies), \<open>category0_coding0_code\<close> its
  first coding's code when it is a concept (observations).
\<close>

record coding =
  cd_system :: "string option"
  cd_code :: "string option"
  cd_display :: "string option"

record extension =
  url :: "string option"
  valueCode :: "string option"
  valueString :: "string option"
  ext_value :: "string option"
  valueCodeableConcept_coding0 :: "coding option"

record fhirIdentifier =
  type_coding0_code :: "string option"
  id_value :: "string option"

record quantity =
  q_value :: "real option"
  q_unit :: "string option"

record component =
  comp_code_coding0_code :: "string option"
  comp_valueQuantity_value :: "real option"

record resource =
  resourceType :: "string option"
  extensions :: "extension list option"
  name0_given0 :: "string option"
  name0_family :: "string option"
  name0_prefix0 :: "string option"
  res_gender :: "string option"
  birthDate :: "string option"
  identifiers :: "fhirIdentifier list option"
  code_coding0 :: "coding option"
  onsetDateTime :: "string option"
  category0 :: "string option"
  category0_coding0_code :: "string option"
  effectiveDateTime :: "string option"
  valueQuantity :: "quantity option"
  components :: "component list option"
  medicationCodeableConcept_coding0 :: "coding option"
  dosage_dose_value :: "real option"
  dosage_dose_unit :: "string option"
  dosage_route_coding0 :: "coding option"
  dosage_route_text :: "string option"
  performedDateTime :: "string option"
  note0_text :: "string option"
  bodySite0_coding0_display :: "string option"
  bodySite0_text :: "string option"
  performedString :: "string option"
  res_criticality :: "string option"
  recordedDate :: "string option"
  reaction0_manifestation0_coding0_code :: "string option"
  reaction0_severity :: "string option"

record entry =
  fullUrl :: "string option"
  entry_resource :: "resource option"

text \<open>
  \<open>bundle.meta\<close> and \<open>bundle.identifier\<close> are opaque to the converter: the model holds
  their JSON text.
\<close>

record fhirBundle =
  b_id :: "string option"
  b_meta :: "string option"
  b_identifier :: "string option"
  b_type :: "string option"
  b_timestamp :: "string option"
  b_entry :: "entry list option"

text \<open>
  What the converter takes from outside: the extension URLs of \<open>config/constants.js\<close>,
  the clock, and \<open>JSON.stringify\<close> on resources and entry lists.
\<close>

record conversionEnv =
  PATIENT_BLOOD_GROUP :: string
  CARE_STAGE :: string
  nowIso :: string
  nowMs :: int
  stringifyResource :: "resource option \<Rightarrow> string"
  stringifyEntries :: "entry list \<Rightarrow> string"

subsection \<open>Strings\<close>

fun startsWith :: "string \<Rightarrow> string \<Rightarrow> bool" where
  "startsWith s [] = True"
| "startsWith [] (c # cs) = False"
| "startsWith (x # xs) (c # cs) = (x = c \<and> startsWith xs cs)"

fun stringIncludes :: "string \<Rightarrow> string \<Rightarrow> bool" where
  "stringIncludes [] needle = (needle = [])"
| "stringIncludes (x # xs) needle = (startsWith (x # xs) needle \<or> stringIncludes xs needle)"

definition trim :: "string \<Rightarrow> string" where
  "trim s = rev (dropWhile isRegexSpace (rev (dropWhile isRegexSpace s)))"

definition toLowerChar :: "char \<Rightarrow> char" where
  "toLowerChar c =
     (case index_of c ''ABCDEFGHIJKLMNOPQRSTUVWXYZ'' of
        Some i \<Rightarrow> ''abcdefghijklmnopqrstuvwxyz'' ! i
      | None \<Rightarrow> c)"

definition toLowerCase :: "string \<Rightarrow> string" where
  \<comment> \<open>on ASCII letters\<close>
  "toLowerCase s = map toLowerChar s"

definition normalizeRouteDisplay :: "string option \<Rightarrow> string" where
  \<comment> \<open>\<open>trimmed.replace(/\s*route$/i, '')\<close>\<close>
  "normalizeRouteDisplay routeValue =
     (if \<not> truthyStr routeValue then []
      else let trimmed = trim (orStr routeValue [])
           in if 5 \<le> length trimmed
                 \<and> toLowerCase (drop (length trimmed - 5) trimmed) = ''route''
              then rev (dropWhile isRegexSpace (rev (take (length trimmed - 5) trimmed)))
              else trimmed)"

definition firstTruthy :: "string option list \<Rightarrow> string option" where
  \<comment> \<open>\<open>a || b || c\<close> where the last operand is returned as it is\<close>
  "firstTruthy vs = (case filter truthyStr vs of v # _ \<Rightarrow> v | [] \<Rightarrow> (if vs = [] then None else last vs))"

subsection \<open>Care stages\<close>

definition CARE_STAGE_VALUE_MAP :: "(string \<times> string) list" where
  "CARE_STAGE_VALUE_MAP =
     [(''poi'', ''poi''), (''casevac'', ''casevac''), (''axp'', ''axp''),
      (''mevac'', ''medevac''), (''medevac'', ''medevac''), (''r1'', ''r1''),
      (''fwdtacevac'', ''fwdTacevac''), (''fwd-tacevac'', ''fwdTacevac''),
      (''forwardtacevac'', ''fwdTacevac''), (''forward-tacevac'', ''fwdTacevac''),
      (''fwd tacevac'', ''fwdTacevac''), (''r2'', ''r2''),
      (''reartacevac'', ''rearTacevac''), (''rear-tacevac'', ''rearTacevac''),
      (''rear tacevac'', ''rearTacevac''), (''r3'', ''r3'')]"

definition normaliseCareStageValue :: "string option \<Rightarrow> string option" where
  "normaliseCareStageValue rawValue =
     (if \<not> truthyStr rawValue then None
      else let trimmed = trim (orStr rawValue []) in
        (case map_of CARE_STAGE_VALUE_MAP trimmed of
           Some direct \<Rightarrow> Some direct
         | None \<Rightarrow>
             let lowered = filter (\<lambda>c. \<not> isRegexSpace c) (toLowerCase trimmed) in
             (case map_of CARE_STAGE_VALUE_MAP lowered of
                Some v \<Rightarrow> Some v
              | None \<Rightarrow> Some trimmed)))"

definition getCareStageFromExtension :: "conversionEnv \<Rightarrow> resource \<Rightarrow> string option" where
  "getCareStageFromExtension env r =
     (case find (\<lambda>ext. url ext = Some (CARE_STAGE env)) (orEmpty (extensions r)) of
        None \<Rightarrow> None
      | Some careStageExt \<Rightarrow>
          normaliseCareStageValue
            (firstTruthy [valueCode careStageExt, valueString careStageExt, ext_value careStageExt]))"

text \<open>
  \<open>payload[careStage]\<close>: the nine stage buckets are the only properties of the payload
  that hold the three lists; under any other key the read of \<open>.conditions\<close>,
  \<open>.vitals\<close> or \<open>.events\<close> gives \<open>undefined\<close> or fails, and the \<open>push\<close> throws a
  TypeError.
\<close>

definition stageOfKey :: "string \<Rightarrow> stageKey option" where
  "stageOfKey k =
     map_of [(''poi'', poi), (''casevac'', casevac), (''axp'', axp), (''medevac'', medevac),
             (''r1'', r1), (''fwdTacevac'', fwdTacevac), (''r2'', r2),
             (''rearTacevac'', rearTacevac), (''r3'', r3)] k"

subsection \<open>Resource converters\<close>

definition extractSystem :: "string option \<Rightarrow> string" where
  "extractSystem systemUrl =
     (case systemUrl of
        None \<Rightarrow> ''unknown''
      | Some u \<Rightarrow> if stringIncludes u ''snomed'' then ''sct''
                  else if stringIncludes u ''loinc'' then ''loinc'' else ''unknown'')"

definition codingSystem :: "coding option \<Rightarrow> string option" where
  "codingSystem c = (case c of None \<Rightarrow> None | Some x \<Rightarrow> cd_system x)"

definition codingCode :: "coding option \<Rightarrow> string option" where
  "codingCode c = (case c of None \<Rightarrow> None | Some x \<Rightarrow> cd_code x)"

definition codingDisplay :: "coding option \<Rightarrow> string option" where
  "codingDisplay c = (case c of None \<Rightarrow> None | Some x \<Rightarrow> cd_display x)"

definition codeOf :: "coding option \<Rightarrow> codeRef" where
  "codeOf c = \<lparr>sys = Some (extractSystem (codingSystem c)),
               code = Some (orStr (codingCode c) ''unknown'')\<rparr>"

definition convertConditionToCodeRef :: "conversionEnv \<Rightarrow> resource \<Rightarrow> condition" where
  "convertConditionToCodeRef env r =
     \<lparr>c_code = Some (codeOf (code_coding0 r)),
      c_onset = Some (orStr (onsetDateTime r) (nowIso env))\<rparr>"

definition convertObservationToCodeRef :: "conversionEnv \<Rightarrow> resource \<Rightarrow> vital" where
  "convertObservationToCodeRef env r =
     \<lparr>v_code = Some (codeOf (code_coding0 r)),
      v_value =
        (case valueQuantity r of
           Some q \<Rightarrow> q_value q
         | None \<Rightarrow>
             (case components r of
                None \<Rightarrow> None
              | Some comps \<Rightarrow>
                  (case find (\<lambda>comp. comp_code_coding0_code comp = Some ''8480-6'') comps of
                     Some systolic \<Rightarrow> comp_valueQuantity_value systolic
                   | None \<Rightarrow> None))),
      v_unit = None, v_route = None,
      v_time = Some (orStr (effectiveDateTime r) (nowIso env))\<rparr>"

definition convertMedicationToCodeRef :: "conversionEnv \<Rightarrow> resource \<Rightarrow> event" where
  "convertMedicationToCodeRef env r =
     \<lparr>e_code = Some (codeOf (medicationCodeableConcept_coding0 r)),
      e_time = Some (orStr (effectiveDateTime r) (nowIso env)),
      e_dose = Some (DoseNumber (case dosage_dose_value r of None \<Rightarrow> 0 | Some v \<Rightarrow> v)),
      e_unit = Some (orStr (dosage_dose_unit r) []),
      e_route = Some (normalizeRouteDisplay
                  (firstTruthy [codingDisplay (dosage_route_coding0 r), dosage_route_text r,
                                codingCode (dosage_route_coding0 r), Some []]))\<rparr>"

definition convertProcedureToCodeRef :: "conversionEnv \<Rightarrow> resource \<Rightarrow> event" where
  "convertProcedureToCodeRef env r =
     \<lparr>e_code = Some (codeOf (code_coding0 r)),
      e_time = Some (orStr (performedDateTime r) (nowIso env)),
      e_dose = Some (DoseText (orStr (note0_text r) [])),
      e_unit = Some [],
      e_route = Some (normalizeRouteDisplay
                  (firstTruthy [bodySite0_coding0_display r, bodySite0_text r,
                                performedString r, Some ''Manual'']))\<rparr>"

definition convertAllergyToCodeRef :: "conversionEnv \<Rightarrow> resource \<Rightarrow> allergy" where
  "convertAllergyToCodeRef env r =
     \<lparr>a_code = codeOf (code_coding0 r),
      a_category = orStr (category0 r) ''unknown'',
      a_criticality = orStr (res_criticality r) ''unknown'',
      a_recorded = orStr (recordedDate r) (nowIso env),
      a_reaction = orStr (reaction0_manifestation0_coding0_code r) ''unknown'',
      a_severity = orStr (reaction0_severity r) ''unknown''\<rparr>"

subsection \<open>The patient\<close>

definition setIdentifier :: "patientData \<Rightarrow> fhirIdentifier \<Rightarrow> patientData" where
  "setIdentifier p ident =
     (if type_coding0_code ident = Some ''NH''
      then p\<lparr>nhs_id := Some \<lparr>sys = Some ''nhs'', code = id_value ident\<rparr>\<rparr>
      else if type_coding0_code ident = Some ''MIL''
      then p\<lparr>service_id := Some \<lparr>sys = Some ''mil'', code = id_value ident\<rparr>\<rparr>
      else p)"

definition genderMap :: "(string \<times> codeRef) list" where
  "genderMap = [(''male'', \<lparr>sys = Some ''sct'', code = Some ''248153007''\<rparr>),
                (''female'', \<lparr>sys = Some ''sct'', code = Some ''248152002''\<rparr>)]"

text \<open>The blood group read from the patient's extensions, when there is one.\<close>

definition bloodGroupFromExtension :: "conversionEnv \<Rightarrow> resource \<Rightarrow> codeRef option" where
  "bloodGroupFromExtension env pr =
     (case extensions pr of
        None \<Rightarrow> None
      | Some exts \<Rightarrow>
          (case find (\<lambda>ext. url ext = Some (PATIENT_BLOOD_GROUP env)) exts of
             None \<Rightarrow> None
           | Some bloodGroupExt \<Rightarrow>
               (case valueCodeableConcept_coding0 bloodGroupExt of
                  None \<Rightarrow> None
                | Some cdg \<Rightarrow> Some \<lparr>sys = Some ''sct'', code = cd_code cdg\<rparr>)))"

definition convertPatient :: "conversionEnv \<Rightarrow> resource \<Rightarrow> patientData" where
  "convertPatient env pr =
     (let convertedPatient =
            emptyPatient\<lparr>given := Some (orStr (name0_given0 pr) []),
                         family := Some (orStr (name0_family pr) []),
                         rank := Some (orStr (name0_prefix0 pr) []),
                         title := Some ''Mr'',
                         nationality := Some ''UK'',
                         dob := Some (orStr (birthDate pr) [])\<rparr>;
          withIds = fold (\<lambda>ident p. setIdentifier p ident) (orEmpty (identifiers pr))
                      convertedPatient;
          withGender = (if truthyStr (res_gender pr)
                        then withIds\<lparr>gender := map_of genderMap (orStr (res_gender pr) [])\<rparr>
                        else withIds)
      in (case bloodGroupFromExtension env pr of
            None \<Rightarrow> withGender
          | Some bg \<Rightarrow> withGender\<lparr>blood_group := Some bg\<rparr>))"

subsection \<open>The entries\<close>

definition isResourceType :: "string \<Rightarrow> entry \<Rightarrow> bool" where
  "isResourceType ty e =
     (case entry_resource e of None \<Rightarrow> False | Some r \<Rightarrow> resourceType r = Some ty)"

definition emptyStage :: stage where
  "emptyStage = \<lparr>vitals = Some [], conditions = Some [], events = Some []\<rparr>"

text \<open>
  \<open>payload[careStage].conditions.push(x)\<close> and its two siblings: a TypeError when the
  payload has no bucket with that list under the key.
\<close>

definition pushCondition :: "string \<Rightarrow> condition \<Rightarrow> payload \<Rightarrow> error + payload" where
  "pushCondition careStage x p =
     (case stageOfKey careStage of
        None \<Rightarrow> Inl TypeError
      | Some k \<Rightarrow>
          (case stages p k of
             None \<Rightarrow> Inl TypeError
           | Some st \<Rightarrow>
               (case conditions st of
                  None \<Rightarrow> Inl TypeError
                | Some xs \<Rightarrow>
                    Inr (p\<lparr>stages := (stages p)(k := Some (st\<lparr>conditions := Some (xs @ [Some x])\<rparr>))\<rparr>))))"

definition pushVital :: "string \<Rightarrow> vital \<Rightarrow> payload \<Rightarrow> error + payload" where
  "pushVital careStage x p =
     (case stageOfKey careStage of
        None \<Rightarrow> Inl TypeError
      | Some k \<Rightarrow>
          (case stages p k of
             None \<Rightarrow> Inl TypeError
           | Some st \<Rightarrow>
               (case vitals st of
                  None \<Rightarrow> Inl TypeError
                | Some xs \<Rightarrow>
                    Inr (p\<lparr>stages := (stages p)(k := Some (st\<lparr>vitals := Some (xs @ [Some x])\<rparr>))\<rparr>))))"

definition pushEvent :: "string \<Rightarrow> event \<Rightarrow> payload \<Rightarrow> error + payload" where
  "pushEvent careStage x p =
     (case stageOfKey careStage of
        None \<Rightarrow> Inl TypeError
      | Some k \<Rightarrow>
          (case stages p k of
             None \<Rightarrow> Inl TypeError
           | Some st \<Rightarrow>
               (case events st of
                  None \<Rightarrow> Inl TypeError
                | Some xs \<Rightarrow>
                    Inr (p\<lparr>stages := (stages p)(k := Some (st\<lparr>events := Some (xs @ [Some x])\<rparr>))\<rparr>))))"

text \<open>The body of \<open>bundle.entry.forEach\<close>.\<close>

definition processEntry :: "conversionEnv \<Rightarrow> entry \<Rightarrow> payload \<Rightarrow> error + payload" where
  "processEntry env e p =
     (case entry_resource e of
        None \<Rightarrow> Inr p
      | Some r \<Rightarrow>
          if resourceType r = Some ''AllergyIntolerance''
          then Inr (p\<lparr>allergies := Some (orEmpty (allergies p) @ [convertAllergyToCodeRef env r])\<rparr>)
          else let careStage = getCareStageFromExtension env r in
            if \<not> truthyStr careStage then Inr p
            else if resourceType r = Some ''Condition''
            then pushCondition (orStr careStage []) (convertConditionToCodeRef env r) p
            else if resourceType r = Some ''Observation''
                    \<and> category0_coding0_code r = Some ''vital-signs''
            then pushVital (orStr careStage []) (convertObservationToCodeRef env r) p
            else if resourceType r = Some ''MedicationAdministration''
            then pushEvent (orStr careStage []) (convertMedicationToCodeRef env r) p
            else if resourceType r = Some ''Procedure''
            then pushEvent (orStr careStage []) (convertProcedureToCodeRef env r) p
            else Inr p)"

fun processEntries :: "conversionEnv \<Rightarrow> entry list \<Rightarrow> payload \<Rightarrow> error + payload" where
  "processEntries env [] p = Inr p"
| "processEntries env (e # es) p =
     (case processEntry env e p of
        Inl err \<Rightarrow> Inl err
      | Inr p' \<Rightarrow> processEntries env es p')"

definition bundleMetadataOf :: "conversionEnv \<Rightarrow> fhirBundle \<Rightarrow> bundleMetadata" where
  "bundleMetadataOf env b =
     (let composition = find (isResourceType ''Composition'') (orEmpty (b_entry b)) in
      \<lparr>bm_id = orStr (b_id b) [],
       meta_json = (case b_meta b of None \<Rightarrow> ''{}'' | Some j \<Rightarrow> j),
       identifier_json = (case b_identifier b of None \<Rightarrow> ''{}'' | Some j \<Rightarrow> j),
       bm_type = orStr (b_type b) ''document'',
       bm_timestamp = orStr (b_timestamp b) (nowIso env),
       composition_fullUrl =
         (case composition of
            None \<Rightarrow> None
          | Some c \<Rightarrow> if truthyStr (fullUrl c) then fullUrl c else None),
       composition_json =
         stringifyResource env (case composition of None \<Rightarrow> None | Some c \<Rightarrow> entry_resource c),
       entries_json = stringifyEntries env (orEmpty (b_entry b))\<rparr>)"

definition convertFhirBundleToCodeRef :: "conversionEnv \<Rightarrow> fhirBundle \<Rightarrow> error + payload" where
  "convertFhirBundleToCodeRef env b =
     (case find (isResourceType ''Patient'') (orEmpty (b_entry b)) of
        None \<Rightarrow> Inl NoPatientResource
      | Some patientEntry \<Rightarrow>
          (case entry_resource patientEntry of
             None \<Rightarrow> Inl NoPatientResource
           | Some pr \<Rightarrow>
               processEntries env (orEmpty (b_entry b))
                 \<lparr>patient = Some (convertPatient env pr),
                  allergies = Some [],
                  bundleMetadata = Some (bundleMetadataOf env b),
                  stages = (\<lambda>k. Some emptyStage),
                  t = Some (TNumber (nowMs env)),
                  original_bundle_json = None,
                  originalBundleJson = None\<rparr>))"




subsection \<open>The sibling path: a single patient resource\<close>

text \<open>
  \<open>convertFhirToCodeRef\<close> wraps a lone Patient resource as \<open>{patient: resource}\<close> and
  adds the coded-reference fields to the resource object itself; a Bundle goes to
  \<open>convertFhirBundleToCodeRef\<close>.
\<close>

datatype genderValue = GenderCode codeRef | GenderText string

record wrappedPatient =
  wp_resource :: resource
  wp_nhs_id :: "codeRef option"
  wp_service_id :: "codeRef option"
  wp_gender :: "genderValue option"
  wp_blood_group :: "codeRef option"

definition defaultBloodGroup :: codeRef where
  "defaultBloodGroup = \<lparr>sys = Some ''sct'', code = Some ''278152006''\<rparr>"

definition setWrappedIdentifier :: "wrappedPatient \<Rightarrow> fhirIdentifier \<Rightarrow> wrappedPatient" where
  "setWrappedIdentifier p ident =
     (if type_coding0_code ident = Some ''NH''
      then p\<lparr>wp_nhs_id := Some \<lparr>sys = Some ''nhs'', code = id_value ident\<rparr>\<rparr>
      else if type_coding0_code ident = Some ''MIL''
      then p\<lparr>wp_service_id := Some \<lparr>sys = Some ''mil'', code = id_value ident\<rparr>\<rparr>
      else p)"

definition convertSinglePatient :: "conversionEnv \<Rightarrow> resource \<Rightarrow> wrappedPatient" where
  "convertSinglePatient env pr =
     (let p0 = \<lparr>wp_resource = pr, wp_nhs_id = None, wp_service_id = None,
                 wp_gender = (case res_gender pr of None \<Rightarrow> None | Some g \<Rightarrow> Some (GenderText g)),
                 wp_blood_group = None\<rparr>;
          p1 = fold (\<lambda>ident p. setWrappedIdentifier p ident) (orEmpty (identifiers pr)) p0;
          p2 = (if truthyStr (res_gender pr)
                then p1\<lparr>wp_gender :=
                        (case map_of genderMap (orStr (res_gender pr) []) of
                           Some c \<Rightarrow> Some (GenderCode c)
                         | None \<Rightarrow> wp_gender p1)\<rparr>
                else p1);
          p3 = (case bloodGroupFromExtension env pr of
                  None \<Rightarrow> p2
                | Some bg \<Rightarrow> p2\<lparr>wp_blood_group := Some bg\<rparr>)
      in if wp_blood_group p3 = None then p3\<lparr>wp_blood_group := Some defaultBloodGroup\<rparr> else p3)"

datatype fhirPayload = PatientResource resource | Bundle fhirBundle

datatype converted = WrappedPatient wrappedPatient | BundlePayload payload

definition convertFhirToCodeRef :: "conversionEnv \<Rightarrow> fhirPayload \<Rightarrow> error + converted" where
  "convertFhirToCodeRef env fhir =
     (case fhir of
        PatientResource pr \<Rightarrow> Inr (WrappedPatient (convertSinglePatient env pr))
      | Bundle b \<Rightarrow>
          (case convertFhirBundleToCodeRef env b of
             Inl err \<Rightarrow> Inl err
           | Inr p \<Rightarrow> Inr (BundlePayload p)))"


subsection \<open>A concrete bundle for the examples\<close>

definition elidedResource :: "resource option \<Rightarrow> string" where
  "elidedResource r = ''...''"

definition elidedEntries :: "entry list \<Rightarrow> string" where
  "elidedEntries es = ''...''"

definition exampleEnv :: conversionEnv where
  "exampleEnv = \<lparr>PATIENT_BLOOD_GROUP = ''urn:ext:patient-blood-group'',
     CARE_STAGE = ''urn:ext:care-stage'', nowIso = ''2024-01-15T12:00:00.000Z'',
     nowMs = 1705320000000, stringifyResource = elidedResource,
     stringifyEntries = elidedEntries\<rparr>"

definition blankResource :: "string \<Rightarrow> resource" where
  "blankResource ty = \<lparr>resourceType = Some ty, extensions = None, name0_given0 = None,
     name0_family = None, name0_prefix0 = None, res_gender = None, birthDate = None,
     identifiers = None, code_coding0 = None, onsetDateTime = None, category0 = None,
     category0_coding0_code = None, effectiveDateTime = None, valueQuantity = None,
     components = None, medicationCodeableConcept_coding0 = None, dosage_dose_value = None,
     dosage_dose_unit = None, dosage_route_coding0 = None, dosage_route_text = None,
     performedDateTime = None, note0_text = None, bodySite0_coding0_display = None,
     bodySite0_text = None, performedString = None, res_criticality = None,
     recordedDate = None, reaction0_manifestation0_coding0_code = None,
     reaction0_severity = None\<rparr>"

definition hodge :: resource where
  "hodge = (blankResource ''Patient'')\<lparr>name0_given0 := Some ''Thomas'',
     name0_family := Some ''Hodge'', res_gender := Some ''male'',
     birthDate := Some ''1984-06-02''\<rparr>"

definition hodgeEntry :: entry where
  "hodgeEntry = \<lparr>fullUrl = Some ''urn:uuid:patient-1'', entry_resource = Some hodge\<rparr>"

definition hodgeBundle :: fhirBundle where
  "hodgeBundle = \<lparr>b_id = Some ''ips-1'', b_meta = None, b_identifier = None,
     b_type = Some ''document'', b_timestamp = Some ''2024-01-15T12:00:00Z'',
     b_entry = Some [hodgeEntry]\<rparr>"






section \<open>Base64: what was encoded is read back\<close>

lemma distinct_b64chars: "distinct b64chars"
  by (simp add: b64chars_def)

lemma length_b64chars: "length b64chars = 64"
  by (simp add: b64chars_def)

lemma index_of_nth: "distinct xs \<Longrightarrow> n < length xs \<Longrightarrow> index_of (xs ! n) xs = Some n"
proof (induction xs arbitrary: n)
  case Nil
  then show ?case by simp
next
  case (Cons y ys)
  then show ?case by (cases n) (auto simp: nth_Cons')
qed

lemma dec64_enc64: "n < 64 \<Longrightarrow> dec64 (enc64 n) = n"
  by (simp add: dec64_def enc64_def index_of_nth distinct_b64chars length_b64chars)

lemma enc64_in: "n < 64 \<Longrightarrow> enc64 n \<in> set b64chars"
  by (simp add: enc64_def length_b64chars)

lemma byte_less: "unat (a :: byte) < 256"
  using unsigned_less [of a, where ?'a = nat] by simp

lemma s1_less: "unat (a :: byte) div 4 < 64"
  using byte_less [of a] by simp

lemma s2_less: "unat (a :: byte) mod 4 * 16 + unat (b :: byte) div 16 < 64"
proof -
  have "unat a mod 4 < 4" "unat b div 16 < 16"
    using byte_less [of b] by simp_all
  then show ?thesis by linarith
qed

lemma s2_last_less: "unat (a :: byte) mod 4 * 16 < 64"
proof -
  have "unat a mod 4 < 4" by simp
  then show ?thesis by linarith
qed

lemma s3_less: "unat (b :: byte) mod 16 * 4 + unat (c :: byte) div 64 < 64"
proof -
  have "unat b mod 16 < 16" "unat c div 64 < 4"
    using byte_less [of c] by simp_all
  then show ?thesis by linarith
qed

lemma s3_last_less: "unat (b :: byte) mod 16 * 4 < 64"
proof -
  have "unat b mod 16 < 16" by simp
  then show ?thesis by linarith
qed

lemma s4_less: "unat (c :: byte) mod 64 < 64"
  by simp

lemmas sextet_less = s1_less s2_less s2_last_less s3_less s3_last_less s4_less

lemmas dec64_sextet =
  dec64_enc64 [OF s1_less] dec64_enc64 [OF s2_less] dec64_enc64 [OF s2_last_less]
  dec64_enc64 [OF s3_less] dec64_enc64 [OF s3_last_less] dec64_enc64 [OF s4_less]

lemma byte1:
  "of_nat (unat a div 4 * 4 + (unat a mod 4 * 16 + unat (b :: byte) div 16) div 16) = (a :: byte)"
proof -
  have "unat b div 16 < 16" using byte_less [of b] by simp
  then have "(unat a mod 4 * 16 + unat b div 16) div 16 = unat a mod 4" by simp
  then show ?thesis by simp
qed

lemma byte1_last: "of_nat (unat a div 4 * 4 + (unat a mod 4 * 16) div 16) = (a :: byte)"
  by simp

lemma byte2:
  "of_nat ((unat (a :: byte) mod 4 * 16 + unat b div 16) mod 16 * 16
           + (unat b mod 16 * 4 + unat (c :: byte) div 64) div 4) = (b :: byte)"
proof -
  have "unat b div 16 < 16" "unat c div 64 < 4"
    using byte_less [of b] byte_less [of c] by simp_all
  then have "(unat a mod 4 * 16 + unat b div 16) mod 16 = unat b div 16"
    "(unat b mod 16 * 4 + unat c div 64) div 4 = unat b mod 16" by simp_all
  then show ?thesis by simp
qed

lemma byte2_last:
  "of_nat ((unat (a :: byte) mod 4 * 16 + unat b div 16) mod 16 * 16
           + (unat b mod 16 * 4) div 4) = (b :: byte)"
proof -
  have "unat b div 16 < 16" using byte_less [of b] by simp
  then have "(unat a mod 4 * 16 + unat b div 16) mod 16 = unat b div 16" by simp
  then show ?thesis by simp
qed

lemma byte3:
  "of_nat ((unat (b :: byte) mod 16 * 4 + unat c div 64) mod 4 * 64 + unat c mod 64) = (c :: byte)"
proof -
  have "unat c div 64 < 4" using byte_less [of c] by simp
  then have "(unat b mod 16 * 4 + unat c div 64) mod 4 = unat c div 64" by simp
  then show ?thesis by simp
qed

lemma fromSextets_btoaCore: "fromSextets (map dec64 (btoaCore bs)) = bs"
proof (induction bs rule: btoaCore.induct)
  case 1
  show ?case by simp
next
  case (2 a)
  show ?case
    by (simp only: btoaCore.simps list.map fromSextets.simps dec64_sextet byte1_last)
next
  case (3 a b)
  show ?case
    by (simp only: btoaCore.simps list.map fromSextets.simps dec64_sextet byte1 byte2_last)
next
  case (4 a b c rest)
  then show ?case
    by (simp only: btoaCore.simps list.map map_append fromSextets.simps dec64_sextet
          byte1 byte2 byte3 append_Cons append_Nil)
qed

lemma btoaCore_chars: "set (btoaCore bs) \<subseteq> set b64chars"
  by (induction bs rule: btoaCore.induct) (simp_all add: enc64_in sextet_less)

lemma btoa_chars: "set (btoa bs) \<subseteq> set b64chars \<union> {CHR ''=''}"
  by (induction bs rule: btoa.induct) (auto simp add: enc64_in sextet_less)

lemma length_btoa: "length (btoa bs) mod 4 = 0"
  by (induction bs rule: btoa.induct) simp_all

lemma length_btoaCore: "length (btoaCore bs) mod 4 \<noteq> 1"
  by (induction bs rule: btoaCore.induct) simp_all

lemma pad_not_in_alphabet: "CHR ''='' \<notin> set b64chars"
  by (simp add: b64chars_def)

lemma stripPadding_btoa: "stripPadding (btoa bs) = btoaCore bs"
proof (induction bs rule: btoa.induct)
  case 1
  show ?case by (simp add: stripPadding_def)
next
  case (2 a)
  show ?case by (simp add: stripPadding_def)
next
  case (3 a b)
  have "enc64 (unat b mod 16 * 4) \<noteq> CHR ''=''"
    using enc64_in [OF s3_last_less, of b] pad_not_in_alphabet by metis
  then show ?case by (simp add: stripPadding_def)
next
  case (4 a b c rest)
  let ?h = "[enc64 (unat a div 4), enc64 ((unat a mod 4) * 16 + unat b div 16),
      enc64 ((unat b mod 16) * 4 + unat c div 64), enc64 (unat c mod 64)]"
  have ne: "enc64 (unat c mod 64) \<noteq> CHR ''=''"
    using enc64_in [OF s4_less, of c] pad_not_in_alphabet by metis
  show ?case
  proof (cases "rest = []")
    case True
    then show ?thesis using ne by (simp add: stripPadding_def)
  next
    case False
    then have nb: "btoa rest \<noteq> []"
      by (cases rest rule: btoa.cases) simp_all
    have l4: "length (btoa rest) mod 4 = 0"
      by (rule length_btoa)
    have nb2: "butlast (btoa rest) \<noteq> []"
      using nb l4 by (cases "btoa rest"; cases "tl (btoa rest)") auto
    have sp: "stripPadding (?h @ btoa rest) = ?h @ stripPadding (btoa rest)"
      using nb nb2 l4 by (simp add: stripPadding_def butlast_append)
    show ?thesis using sp 4 by simp
  qed
qed

lemma alphabet_char_plain:
  "c \<in> set b64chars \<union> {CHR ''=''} \<Longrightarrow>
     \<not> isAsciiWhitespace c \<and> \<not> isRegexSpace c \<and> c \<noteq> CHR ''-'' \<and> c \<noteq> CHR ''_''"
  by (auto simp add: b64chars_def isAsciiWhitespace_def isRegexSpace_def)

lemma atob_btoa: "atob (btoa bs) = Some bs"
proof -
  have f: "filter (\<lambda>c. \<not> isAsciiWhitespace c) (btoa bs) = btoa bs"
    using btoa_chars [of bs] alphabet_char_plain by (intro filter_True) blast
  show ?thesis
    using btoaCore_chars [of bs] length_btoaCore [of bs]
    by (auto simp add: atob_def Let_def f stripPadding_btoa fromSextets_btoaCore)
qed

lemma normaliseBase64_btoa: "normaliseBase64 (btoa bs) = btoa bs"
proof -
  have f: "filter (\<lambda>c. \<not> isRegexSpace c) (btoa bs) = btoa bs"
    using btoa_chars [of bs] alphabet_char_plain by (intro filter_True) blast
  have m1: "map (\<lambda>c. if c = CHR ''-'' then CHR ''+'' else c) (btoa bs) = btoa bs"
    using btoa_chars [of bs] alphabet_char_plain by (intro map_idI) auto
  have m2: "map (\<lambda>c. if c = CHR ''_'' then CHR ''/'' else c) (btoa bs) = btoa bs"
    using btoa_chars [of bs] alphabet_char_plain by (intro map_idI) auto
  show ?thesis by (simp add: normaliseBase64_def f m1 m2 length_btoa)
qed

lemma base64ToUint8Array_btoa: "base64ToUint8Array (btoa bs) = Some bs"
  by (simp add: base64ToUint8Array_def normaliseBase64_btoa atob_btoa)


section \<open>Codec pipeline: candidates, negotiation, transport text, round trip\<close>

lemma tryDecode_first:
  "\<forall>x \<in> set pre. dw x = None \<Longrightarrow> dw b = Some r \<Longrightarrow> tryDecode dw (pre @ b # post) = Some r"
  by (induction pre) simp_all

lemma tryDecode_none: "\<forall>x \<in> set bs. dw x = None \<Longrightarrow> tryDecode dw bs = None"
  by (induction bs) simp_all

lemma convertFromProtobufNaming_snake:
  assumes "snakeCasePayload P"
  shows "convertFromProtobufNaming P = P"
proof (cases "patient P")
  case None
  then show ?thesis by (simp add: convertFromProtobufNaming_def)
next
  case (Some p0)
  with assms have s: "\<not> (bloodGroup p0 \<noteq> None \<and> blood_group p0 = None)"
    "\<not> (nhsId p0 \<noteq> None \<and> nhs_id p0 = None)"
    "\<not> (serviceId p0 \<noteq> None \<and> service_id p0 = None)"
    by (simp_all add: snakeCasePayload_def snakeCasePatient_def)
  have "P\<lparr>patient := Some p0\<rparr> = P"
    using Some by simp
  then show ?thesis
    using Some s by (simp only: convertFromProtobufNaming_def option.case Let_def if_False)
qed

lemma truthyStr_Some: "truthyStr v \<Longrightarrow> v \<noteq> None"
  by (cases v) (simp_all add: truthyStr_def)

lemma patient_fixes_idle:
  "patient P = Some mp \<Longrightarrow>
     (let o1 = (if blood_group mp \<noteq> None \<and> blood_group (patientOrEmpty P) = None
                then P\<lparr>patient := Some ((patientOrEmpty P)\<lparr>blood_group := blood_group mp\<rparr>)\<rparr>
                else P);
          o2 = (if nhs_id mp \<noteq> None \<and> nhs_id (patientOrEmpty o1) = None
                then o1\<lparr>patient := Some ((patientOrEmpty o1)\<lparr>nhs_id := nhs_id mp\<rparr>)\<rparr>
                else o1);
          o3 = (if service_id mp \<noteq> None \<and> service_id (patientOrEmpty o2) = None
                then o2\<lparr>patient := Some ((patientOrEmpty o2)\<lparr>service_id := service_id mp\<rparr>)\<rparr>
                else o2)
      in o3) = P"
  by (simp add: patientOrEmpty_def Let_def)

lemma bundle_fix_idle:
  "(if truthyStr (if truthyStr (original_bundle_json P) then original_bundle_json P
                  else originalBundleJson P)
       \<and> \<not> truthyStr (original_bundle_json P) \<and> \<not> truthyStr (originalBundleJson P)
    then P\<lparr>originalBundleJson :=
             (if truthyStr (original_bundle_json P) then original_bundle_json P
              else originalBundleJson P)\<rparr>
    else P) = P"
  by simp

lemma decodeWith_faithful:
  assumes "pt_decode pt wire = Some P" and "pt_toObject pt P = P"
  shows "decodeWith pt wire = Some (convertFromProtobufNaming P)"
proof (cases "patient P")
  case None
  then show ?thesis
    using assms bundle_fix_idle [of P] by (simp add: decodeWith_def Let_def)
next
  case (Some mp)
  show ?thesis
    using assms Some patient_fixes_idle [OF Some] bundle_fix_idle [of P]
    by (simp add: decodeWith_def Let_def)
qed

text \<open>
  C3. The candidate list has one or two buffers, never three: the inflated stream when
  the standard inflate succeeds (the raw inflate is then not attempted), else the
  raw-inflated stream when that succeeds, and the received bytes last.
\<close>

theorem attemptInflations_candidates:
  "last (attemptInflations pk bytes) = bytes
   \<and> 1 \<le> length (attemptInflations pk bytes) \<and> length (attemptInflations pk bytes) \<le> 2
   \<and> (inflate pk bytes = Some a \<longrightarrow> attemptInflations pk bytes = [a, bytes])
   \<and> (inflate pk bytes = None \<longrightarrow> inflateRaw pk bytes = Some b
        \<longrightarrow> attemptInflations pk bytes = [b, bytes])
   \<and> (inflate pk bytes = None \<longrightarrow> inflateRaw pk bytes = None
        \<longrightarrow> attemptInflations pk bytes = [bytes])"
  by (auto simp add: attemptInflations_def split: option.splits)

theorem attemptInflations_candidates_witness:
  "inflate storedPako [7] = Some [7] \<and> attemptInflations storedPako [7] = [[7], [7]]
   \<and> inflate zlibPako [7] = None \<and> inflateRaw zlibPako [7] = None
   \<and> attemptInflations zlibPako [7] = [[7]]"
proof -
  have a: "inflate storedPako [7] = Some [7]"
    by (simp add: storedPako_def)
  have b: "inflate zlibPako [7] = None" "inflateRaw zlibPako [7] = None"
    by (simp_all add: zlibPako_def zlibInflate_def zlibOfEmpty_def rejectAll_def)
  show ?thesis
    using a b attemptInflations_candidates [where pk = storedPako and bytes = "[7]" and a = "[7]"]
      attemptInflations_candidates [where pk = zlibPako and bytes = "[7]"]
    by simp
qed

theorem attemptInflations_three_counterexample:
  "length (attemptInflations storedPako [7]) \<noteq> 3"
  by (simp add: attemptInflations_def storedPako_def)


text \<open>
  C2. Negotiation is schema by schema: the current schema is tried on every candidate
  buffer in order; only when it fails on all of them is the legacy schema tried on every
  candidate in order. The first success wins and carries its schema; when nothing
  matches, the error 'Unable to decode NFC payload fragment.' is raised.
\<close>

theorem decodeFragment_schema_order:
  assumes "base64ToUint8Array fragment = Some bytes"
  shows "(attemptInflations pk bytes = pre @ b # post
            \<longrightarrow> (\<forall>x \<in> set pre. decodeWith pt x = None) \<longrightarrow> decodeWith pt b = Some r
            \<longrightarrow> decodeFragment pk pt leg fragment = Inr (Coderef r))
       \<and> ((\<forall>x \<in> set (attemptInflations pk bytes). decodeWith pt x = None)
            \<longrightarrow> attemptInflations pk bytes = pre' @ b' # post'
            \<longrightarrow> (\<forall>x \<in> set pre'. leg x = None) \<longrightarrow> leg b' = Some l
            \<longrightarrow> decodeFragment pk pt leg fragment = Inr (Legacy l))
       \<and> ((\<forall>x \<in> set (attemptInflations pk bytes). decodeWith pt x = None \<and> leg x = None)
            \<longrightarrow> decodeFragment pk pt leg fragment = Inl UnableToDecode)"
proof (intro conjI impI)
  assume "attemptInflations pk bytes = pre @ b # post"
    and "\<forall>x \<in> set pre. decodeWith pt x = None" and "decodeWith pt b = Some r"
  then have "tryDecode (decodeWith pt) (attemptInflations pk bytes) = Some r"
    by (simp add: tryDecode_first)
  then show "decodeFragment pk pt leg fragment = Inr (Coderef r)"
    using assms by (simp add: decodeFragment_def)
next
  assume "\<forall>x \<in> set (attemptInflations pk bytes). decodeWith pt x = None"
    and "attemptInflations pk bytes = pre' @ b' # post'"
    and "\<forall>x \<in> set pre'. leg x = None" and "leg b' = Some l"
  then have "tryDecode (decodeWith pt) (attemptInflations pk bytes) = None"
    and "tryDecode leg (attemptInflations pk bytes) = Some l"
    by (simp_all add: tryDecode_first tryDecode_none)
  then show "decodeFragment pk pt leg fragment = Inr (Legacy l)"
    using assms by (simp add: decodeFragment_def)
next
  assume "\<forall>x \<in> set (attemptInflations pk bytes). decodeWith pt x = None \<and> leg x = None"
  then have "tryDecode (decodeWith pt) (attemptInflations pk bytes) = None"
    and "tryDecode leg (attemptInflations pk bytes) = None"
    by (simp_all add: tryDecode_none)
  then show "decodeFragment pk pt leg fragment = Inl UnableToDecode"
    using assms by (simp add: decodeFragment_def)
qed

lemma ambiguous_bytes: "base64ToUint8Array ''Ag=='' = Some [2]"
proof -
  have "btoa [2] = ''Ag==''"
    by (simp add: enc64_def b64chars_def)
  then show ?thesis
    using base64ToUint8Array_btoa [of "[2]"] by simp
qed

lemma ambiguous_buffers: "attemptInflations ambiguousPako [2] = [[1], [2]]"
  by (simp add: attemptInflations_def ambiguousPako_def ambiguousInflate_def)

lemma currentOnTwo_rejects: "decodeWith currentOnTwo [1] = None"
  by (simp add: decodeWith_def currentOnTwo_def decodeTwo_def)

lemma emptyPayload_snake: "snakeCasePayload emptyPayload"
  by (simp add: snakeCasePayload_def emptyPayload_def)

lemma currentOnTwo_accepts: "decodeWith currentOnTwo [2] = Some emptyPayload"
proof -
  have "decodeWith currentOnTwo [2] = Some (convertFromProtobufNaming emptyPayload)"
    by (rule decodeWith_faithful) (simp_all add: currentOnTwo_def decodeTwo_def)
  then show ?thesis
    by (simp add: convertFromProtobufNaming_snake emptyPayload_snake)
qed

theorem decodeFragment_schema_order_witness:
  "base64ToUint8Array ''Ag=='' = Some [2]
   \<and> attemptInflations ambiguousPako [2] = [[1]] @ [2] # []
   \<and> decodeWith currentOnTwo [1] = None
   \<and> decodeWith currentOnTwo [2] = Some emptyPayload
   \<and> decodeFragment ambiguousPako currentOnTwo legacyOnOne ''Ag==''
       = Inr (Coderef emptyPayload)"
proof -
  have h: "attemptInflations ambiguousPako [2] = [[1]] @ [2] # []"
    by (simp add: ambiguous_buffers)
  have n: "\<forall>x \<in> set [[1]]. decodeWith currentOnTwo x = None"
    by (simp add: currentOnTwo_rejects)
  show ?thesis
    using decodeFragment_schema_order [OF ambiguous_bytes, where pk = ambiguousPako
        and pre = "[[1]]" and b = "[2]" and post = "[]" and pt = currentOnTwo
        and r = emptyPayload and leg = legacyOnOne]
      h n currentOnTwo_accepts currentOnTwo_rejects ambiguous_bytes
    by blast
qed

theorem buffer_major_negotiation_counterexample:
  "decodeFragment ambiguousPako currentOnTwo legacyOnOne ''Ag=='' = Inr (Coderef emptyPayload)
   \<and> spec_bufferMajorNegotiation (decodeWith currentOnTwo) legacyOnOne
         (attemptInflations ambiguousPako [2]) = Inr (Legacy ''indexed'')"
proof -
  have "decodeFragment ambiguousPako currentOnTwo legacyOnOne ''Ag=='' = Inr (Coderef emptyPayload)"
    by (simp add: decodeFragment_def ambiguous_bytes ambiguous_buffers
          currentOnTwo_rejects currentOnTwo_accepts)
  moreover have "spec_bufferMajorNegotiation (decodeWith currentOnTwo) legacyOnOne
         (attemptInflations ambiguousPako [2]) = Inr (Legacy ''indexed'')"
    by (simp add: ambiguous_buffers currentOnTwo_rejects legacyOnOne_def)
  ultimately show ?thesis by simp
qed

text \<open>
  C8. The empty payload serialises to no bytes, zlib turns them into
  \<open>78 9c 03 00 00 00 00 01\<close>, and the fragment returned is the padded standard
  Base64 text \<open>eJwDAAAAAAE=\<close>: it ends with \<open>=\<close>.
\<close>

theorem encodeToFragment_padded:
  "encodeToFragment zlibPako emptyMessageType emptyPayload = Inr ''eJwDAAAAAAE=''"
  by (simp add: encodeToFragment_def zlibPako_def emptyMessageType_def encodeEmpty_def
        zlibDeflate_def zlibOfEmpty_def enc64_def b64chars_def)

theorem encodeToFragment_padded_witness:
  "\<exists>fragment. encodeToFragment zlibPako emptyMessageType emptyPayload = Inr fragment
      \<and> last fragment = CHR ''=''"
  using encodeToFragment_padded by simp






section \<open>Normalisation: an item without a code\<close>












section \<open>Temporal grouping: the walk and the order\<close>























section \<open>Temporal grouping: chronological order of the output\<close>

















section \<open>Summary timestamp\<close>










section \<open>Bundle conversion: the blood group and the care stage\<close>

lemma push_patient:
  "pushCondition k c p = Inr p' \<Longrightarrow> patient p' = patient p"
  "pushVital k v p = Inr p' \<Longrightarrow> patient p' = patient p"
  "pushEvent k ev p = Inr p' \<Longrightarrow> patient p' = patient p"
  by (auto simp add: pushCondition_def pushVital_def pushEvent_def split: option.splits)

lemma processEntry_patient: "processEntry env e p = Inr p' \<Longrightarrow> patient p' = patient p"
  by (auto simp add: processEntry_def Let_def push_patient split: option.splits if_splits)

lemma processEntries_patient: "processEntries env es p = Inr p' \<Longrightarrow> patient p' = patient p"
proof (induction es arbitrary: p)
  case Nil
  then show ?case by simp
next
  case (Cons e es)
  from Cons.prems obtain q where q: "processEntry env e p = Inr q" "processEntries env es q = Inr p'"
    by (auto split: sum.splits)
  then show ?case
    using Cons.IH [of q] processEntry_patient [of env e p q] by simp
qed

lemma setIdentifier_blood_group: "blood_group (setIdentifier p ident) = blood_group p"
  by (simp add: setIdentifier_def)

lemma fold_setIdentifier_blood_group:
  "blood_group (fold (\<lambda>ident p. setIdentifier p ident) ids p) = blood_group p"
  by (induction ids arbitrary: p) (simp_all add: setIdentifier_blood_group)

lemma convertPatient_no_blood_group:
  "bloodGroupFromExtension env pr = None \<Longrightarrow> blood_group (convertPatient env pr) = None"
  by (simp add: convertPatient_def Let_def fold_setIdentifier_blood_group emptyPatient_def)

text \<open>The sibling path substitutes the default.\<close>

lemma single_patient_default:
  "bloodGroupFromExtension env pr = None \<Longrightarrow>
     convertFhirToCodeRef env (PatientResource pr) = Inr (WrappedPatient wp) \<Longrightarrow>
     wp_blood_group wp = Some defaultBloodGroup"
proof -
  have f: "wp_blood_group (fold (\<lambda>ident p. setWrappedIdentifier p ident) ids p) = wp_blood_group p"
    for ids p
    by (induction ids arbitrary: p) (simp_all add: setWrappedIdentifier_def)
  assume "bloodGroupFromExtension env pr = None"
    and "convertFhirToCodeRef env (PatientResource pr) = Inr (WrappedPatient wp)"
  then show ?thesis
    by (auto simp add: convertFhirToCodeRef_def convertSinglePatient_def Let_def f)
qed

text \<open>
  C6. For a bundle whose patient resource has no blood-group extension, the converted
  patient has no blood group at all: the default \<open>sct:278152006\<close> is only substituted
  on the single-patient path of \<open>convertFhirToCodeRef\<close>, which a bundle never reaches.
\<close>

theorem bundle_without_blood_group:
  assumes "convertFhirToCodeRef env (Bundle b) = Inr (BundlePayload p)"
    and "find (isResourceType ''Patient'') (orEmpty (b_entry b)) = Some patientEntry"
    and "entry_resource patientEntry = Some pr"
    and "bloodGroupFromExtension env pr = None"
  shows "\<exists>pd. patient p = Some pd \<and> blood_group pd = None
           \<and> blood_group pd \<noteq> Some defaultBloodGroup"
proof -
  from assms(1) have c: "convertFhirBundleToCodeRef env b = Inr p"
    by (auto simp add: convertFhirToCodeRef_def split: sum.splits)
  then have "patient p = Some (convertPatient env pr)"
    using assms(2,3) processEntries_patient
    by (fastforce simp add: convertFhirBundleToCodeRef_def)
  then show ?thesis
    using convertPatient_no_blood_group [OF assms(4)] by simp
qed

lemma hodge_found: "find (isResourceType ''Patient'') (orEmpty (b_entry hodgeBundle)) = Some hodgeEntry"
  by (simp add: hodgeBundle_def orEmpty_def isResourceType_def hodgeEntry_def hodge_def
        blankResource_def)

lemma hodge_no_extension: "bloodGroupFromExtension exampleEnv hodge = None"
  by (simp add: bloodGroupFromExtension_def hodge_def blankResource_def)

lemma hodge_entry_skipped: "processEntry exampleEnv hodgeEntry p = Inr p"
  by (simp add: processEntry_def hodgeEntry_def hodge_def blankResource_def
        getCareStageFromExtension_def orEmpty_def truthyStr_def)

lemma hodge_converts:
  "\<exists>p. convertFhirToCodeRef exampleEnv (Bundle hodgeBundle) = Inr (BundlePayload p)"
proof -
  have "entry_resource hodgeEntry = Some hodge"
    by (simp add: hodgeEntry_def)
  moreover have "orEmpty (b_entry hodgeBundle) = [hodgeEntry]"
    by (simp add: hodgeBundle_def orEmpty_def)
  ultimately have "\<exists>p. convertFhirBundleToCodeRef exampleEnv hodgeBundle = Inr p"
    using hodge_found by (simp add: convertFhirBundleToCodeRef_def hodge_entry_skipped)
  then show ?thesis
    by (auto simp add: convertFhirToCodeRef_def)
qed

theorem bundle_without_blood_group_witness:
  "find (isResourceType ''Patient'') (orEmpty (b_entry hodgeBundle)) = Some hodgeEntry
   \<and> entry_resource hodgeEntry = Some hodge
   \<and> bloodGroupFromExtension exampleEnv hodge = None
   \<and> (\<exists>p pd. convertFhirToCodeRef exampleEnv (Bundle hodgeBundle) = Inr (BundlePayload p)
         \<and> patient p = Some pd \<and> blood_group pd = None)"
proof -
  have r: "entry_resource hodgeEntry = Some hodge"
    by (simp add: hodgeEntry_def)
  from hodge_converts obtain p where
    p: "convertFhirToCodeRef exampleEnv (Bundle hodgeBundle) = Inr (BundlePayload p)" ..
  from bundle_without_blood_group [OF p hodge_found r hodge_no_extension]
  obtain pd where "patient p = Some pd" "blood_group pd = None" by blast
  then have "\<exists>p pd. convertFhirToCodeRef exampleEnv (Bundle hodgeBundle) = Inr (BundlePayload p)
         \<and> patient p = Some pd \<and> blood_group pd = None"
    using p by blast
  then show ?thesis
    using hodge_found r hodge_no_extension by (intro conjI)
qed


















end
